theory Spec2Isabelle
  imports Main
begin

section \<open>Values of the host language\<close>

text \<open>
  The container is written in TypeScript and checks its construction options and the
  results of middleware at run time, so the values it inspects are modelled as a
  datatype of JavaScript values. Functions and symbols carry what identifies them.
\<close>

datatype js_value =
    JUndefined
  | JNull
  | JBoolean bool
  | JNumber int
  | JNaN
  | JString string
  | JSymbol string
  | JFunction nat
  | JArray "js_value list"
  | JObject "(string \<times> js_value) list"

text \<open>The operand test of \<^verbatim>\<open>||\<close> and \<^verbatim>\<open>if\<close>: the falsy values are
  \<^verbatim>\<open>undefined\<close>, \<^verbatim>\<open>null\<close>, \<^verbatim>\<open>false\<close>, \<^verbatim>\<open>0\<close>, \<^verbatim>\<open>NaN\<close> and the empty string.\<close>

fun truthy :: "js_value \<Rightarrow> bool" where
  "truthy JUndefined = False"
| "truthy JNull = False"
| "truthy (JBoolean b) = b"
| "truthy (JNumber n) = (n \<noteq> 0)"
| "truthy JNaN = False"
| "truthy (JString s) = (s \<noteq> [])"
| "truthy (JSymbol s) = True"
| "truthy (JFunction f) = True"
| "truthy (JArray xs) = True"
| "truthy (JObject fs) = True"

fun typeof :: "js_value \<Rightarrow> string" where
  "typeof JUndefined = ''undefined''"
| "typeof JNull = ''object''"
| "typeof (JBoolean b) = ''boolean''"
| "typeof (JNumber n) = ''number''"
| "typeof JNaN = ''number''"
| "typeof (JString s) = ''string''"
| "typeof (JSymbol s) = ''symbol''"
| "typeof (JFunction f) = ''function''"
| "typeof (JArray xs) = ''object''"
| "typeof (JObject fs) = ''object''"

text \<open>Reading a property: a property that is not there reads as \<^verbatim>\<open>undefined\<close>.\<close>

fun get_property :: "js_value \<Rightarrow> string \<Rightarrow> js_value" where
  "get_property (JObject fs) k = (case map_of fs k of None \<Rightarrow> JUndefined | Some v \<Rightarrow> v)"
| "get_property v k = JUndefined"

section \<open>Service identifiers and errors\<close>

text \<open>
  A service identifier is a string, a symbol or a class. A class is identified by the
  object it is (a number here) and has a name.
\<close>

datatype service_identifier =
    StringIdentifier string
  | SymbolIdentifier string
  | ClassIdentifier nat string

text \<open>
  Modelled from the spec: \<^verbatim>\<open>utils/serialization\<close> is not among the sources. The tests
  of the container fix its results: a string is itself, the symbol for \<^verbatim>\<open>Katana\<close> is
  \<^verbatim>\<open>Symbol(Katana)\<close>, a class is its name.
\<close>

fun getServiceIdentifierAsString :: "service_identifier \<Rightarrow> string" where
  "getServiceIdentifierAsString (ClassIdentifier i n) = n"
| "getServiceIdentifierAsString (SymbolIdentifier d) = ''Symbol('' @ d @ '')''"
| "getServiceIdentifierAsString (StringIdentifier s) = s"

text \<open>
  The constants of \<^verbatim>\<open>constants/error_msgs\<close> that the container uses. Their texts are
  not among the sources, so an error keeps the constant and, where the source builds
  the message \<^verbatim>\<open>`${CONSTANT} ${text}`\<close>, the text that follows it. \<open>KEY_NOT_FOUND\<close> is
  the failure of the binding registry.
\<close>

datatype error_msgs =
    CANNOT_UNBIND
  | NO_MORE_SNAPSHOTS_AVAILABLE
  | INVALID_MIDDLEWARE_RETURN
  | CONTAINER_OPTIONS_MUST_BE_AN_OBJECT
  | CONTAINER_OPTIONS_INVALID_DEFAULT_SCOPE
  | CONTAINER_OPTIONS_INVALID_AUTO_BIND_INJECTABLE
  | CONTAINER_OPTIONS_INVALID_SKIP_BASE_CHECK
  | KEY_NOT_FOUND
  | OTHER_ERROR string

datatype error = Error error_msgs "string option"

text \<open>The message of an error, for any texts \<open>t\<close> of the constants.\<close>

fun message :: "(error_msgs \<Rightarrow> string) \<Rightarrow> error \<Rightarrow> string" where
  "message t (Error m None) = t m"
| "message t (Error m (Some s)) = t m @ '' '' @ s"

section \<open>Bindings and requests\<close>

text \<open>
  Modelled from the spec: \<^verbatim>\<open>planning/planner\<close> (\<^verbatim>\<open>createMockRequest\<close>) is not among the
  sources. A mock request is a root request for a service identifier, made in the
  context of a container, whose target carries one tag.
\<close>

record request =
  request_container :: nat
  request_serviceIdentifier :: service_identifier
  request_key :: js_value
  request_value :: js_value

text \<open>Modelled from the spec: \<^verbatim>\<open>createMockRequest(container, serviceIdentifier, key, value)\<close>
  of the planner.\<close>

definition createMockRequest ::
  "nat \<Rightarrow> service_identifier \<Rightarrow> js_value \<Rightarrow> js_value \<Rightarrow> request" where
  "createMockRequest container serviceIdentifier key val =
     \<lparr>request_container = container, request_serviceIdentifier = serviceIdentifier,
      request_key = key, request_value = val\<rparr>"

text \<open>
  Modelled from the spec: \<^verbatim>\<open>constants/literal_types\<close> is not among the sources. The
  scopes are Transient, Singleton and Request, each a string constant.
\<close>

definition BindingScopeEnum_Request :: js_value where
  "BindingScopeEnum_Request = JString ''Request''"

text \<open>Modelled from the spec: the scope Singleton of \<^verbatim>\<open>constants/literal_types\<close>.\<close>

definition BindingScopeEnum_Singleton :: js_value where
  "BindingScopeEnum_Singleton = JString ''Singleton''"

text \<open>Modelled from the spec: the scope Transient of \<^verbatim>\<open>constants/literal_types\<close>.\<close>

definition BindingScopeEnum_Transient :: js_value where
  "BindingScopeEnum_Transient = JString ''Transient''"

text \<open>Modelled from the spec: \<^verbatim>\<open>constants/metadata_keys\<close> is not among the sources. The
  canonical tag of a named target is \<^verbatim>\<open>named\<close>.\<close>

definition NAMED_TAG :: js_value where
  "NAMED_TAG = JString ''named''"

text \<open>Modelled from the spec: the kinds of injection target of \<^verbatim>\<open>constants/literal_types\<close>;
  the container asks for \<open>Variable\<close>.\<close>

datatype target_type = ConstructorArgument | ClassProperty | Variable

text \<open>
  Modelled from the spec: \<^verbatim>\<open>bindings/binding\<close> is not among the sources. A binding has
  a unique numeric identity assigned at creation, the module that owns it (none at
  creation), the identifier it satisfies, a scope, a constraint (at creation: always
  eligible), a production strategy and a cache.
\<close>

datatype production =
    Invalid
  | Instance service_identifier
  | ConstantValue js_value
  | DynamicValue nat
  | Factory nat
  | Provider nat

record binding =
  binding_id :: nat
  moduleId :: "nat option"
  serviceIdentifier :: service_identifier
  scope :: js_value
  constraint :: "request \<Rightarrow> bool"
  production :: production
  cache :: "js_value option"

text \<open>Modelled from the spec: the constructor of \<^verbatim>\<open>Binding\<close>, given the identity that
  \<^verbatim>\<open>id()\<close> returns.\<close>

definition new_Binding :: "nat \<Rightarrow> service_identifier \<Rightarrow> js_value \<Rightarrow> binding" where
  "new_Binding fresh sid sc =
     \<lparr>binding_id = fresh, moduleId = None, serviceIdentifier = sid, scope = sc,
      constraint = (\<lambda>r. True), production = Invalid, cache = None\<rparr>"

text \<open>Modelled from the spec: \<^verbatim>\<open>Binding.clone\<close>. A clone is a new binding (a new identity)
  with the same configuration.\<close>

definition Binding_clone :: "nat \<Rightarrow> binding \<Rightarrow> binding" where
  "Binding_clone fresh b = b\<lparr>binding_id := fresh\<rparr>"

section \<open>The binding registry\<close>

text \<open>
  Modelled from the spec: \<^verbatim>\<open>container/lookup\<close> is not among the sources. The registry
  is an ordered multi-map from service identifiers to bindings: a list of keys in
  insertion order, each with its bindings in insertion order.
\<close>

type_synonym lookup = "(service_identifier \<times> binding list) list"

text \<open>Modelled from the spec: \<^verbatim>\<open>Lookup.hasKey\<close>.\<close>

definition Lookup_hasKey :: "lookup \<Rightarrow> service_identifier \<Rightarrow> bool" where
  "Lookup_hasKey l k = (k \<in> set (map fst l))"

text \<open>Modelled from the spec: \<^verbatim>\<open>Lookup.get\<close> fails when the key is absent.\<close>

definition Lookup_get :: "lookup \<Rightarrow> service_identifier \<Rightarrow> error + binding list" where
  "Lookup_get l k =
     (case map_of l k of None \<Rightarrow> Inl (Error KEY_NOT_FOUND None) | Some bs \<Rightarrow> Inr bs)"

text \<open>Modelled from the spec: \<^verbatim>\<open>Lookup.add\<close> appends, preserving order.\<close>

fun Lookup_add :: "lookup \<Rightarrow> service_identifier \<Rightarrow> binding \<Rightarrow> lookup" where
  "Lookup_add [] k b = [(k, [b])]"
| "Lookup_add ((k', bs) # l) k b =
     (if k' = k then (k', bs @ [b]) # l else (k', bs) # Lookup_add l k b)"

text \<open>Modelled from the spec: \<^verbatim>\<open>Lookup.remove\<close> fails when the key is absent, and removes
  the key otherwise.\<close>

definition Lookup_remove :: "lookup \<Rightarrow> service_identifier \<Rightarrow> error + lookup" where
  "Lookup_remove l k =
     (if Lookup_hasKey l k then Inr (filter (\<lambda>e. fst e \<noteq> k) l)
      else Inl (Error KEY_NOT_FOUND None))"

text \<open>Modelled from the spec: \<^verbatim>\<open>Lookup.removeByCondition\<close> deletes the bindings that
  match, across all keys, and prunes the keys left empty.\<close>

fun Lookup_removeByCondition :: "lookup \<Rightarrow> (binding \<Rightarrow> bool) \<Rightarrow> lookup" where
  "Lookup_removeByCondition [] condition = []"
| "Lookup_removeByCondition ((k, bs) # l) condition =
     (let updatedEntries = filter (\<lambda>entry. \<not> condition entry) bs in
      if length updatedEntries > 0
      then (k, updatedEntries) # Lookup_removeByCondition l condition
      else Lookup_removeByCondition l condition)"

text \<open>Modelled from the spec: \<^verbatim>\<open>Lookup.clone\<close> copies the keys and clones each binding.
  Each clone takes a new identity from the counter, which is returned advanced. First
  the bindings of one key.\<close>

fun clone_bindings :: "nat \<Rightarrow> binding list \<Rightarrow> binding list \<times> nat" where
  "clone_bindings n [] = ([], n)"
| "clone_bindings n (b # bs) =
     (let (bs', n') = clone_bindings (Suc n) bs in (Binding_clone n b # bs', n'))"

text \<open>Modelled from the spec: \<^verbatim>\<open>Lookup.clone\<close>, key after key.\<close>

fun Lookup_clone :: "nat \<Rightarrow> lookup \<Rightarrow> lookup \<times> nat" where
  "Lookup_clone n [] = ([], n)"
| "Lookup_clone n ((k, bs) # l) =
     (let (bs', n') = clone_bindings n bs;
          (l', n'') = Lookup_clone n' l
      in ((k, bs') # l', n''))"

section \<open>Contexts, resolution arguments and middleware\<close>

text \<open>
  \<^verbatim>\<open>planning/context.ts\<close>: a context has an identity, the container it was made for,
  and, once they are set, a plan and a current request. A plan wraps its root request.
\<close>

record planning_context =
  context_id :: nat
  context_container :: nat
  context_plan :: "request option"
  currentRequest :: "request option"

definition new_Context :: "nat \<Rightarrow> nat \<Rightarrow> planning_context" where
  "new_Context fresh container =
     \<lparr>context_id = fresh, context_container = container, context_plan = None,
      currentRequest = None\<rparr>"

definition addPlan :: "request \<Rightarrow> planning_context \<Rightarrow> planning_context" where
  "addPlan p ctx = ctx\<lparr>context_plan := Some p\<rparr>"

definition setCurrentRequest :: "request \<Rightarrow> planning_context \<Rightarrow> planning_context" where
  "setCurrentRequest r ctx = ctx\<lparr>currentRequest := Some r\<rparr>"

text \<open>The arguments \<^verbatim>\<open>_get\<close> hands to the resolution entry point. An argument that
  the caller leaves out is \<^verbatim>\<open>undefined\<close>.\<close>

record next_args =
  avoidConstraints :: bool
  contextInterceptor :: "planning_context \<Rightarrow> planning_context"
  isMultiInject :: bool
  args_key :: js_value
  args_serviceIdentifier :: service_identifier
  targetType :: target_type
  args_value :: js_value

datatype metadata_reader = MetadataReader | CustomMetadataReader nat

text \<open>
  What planning and resolution read of a container when they run: its identity, its
  options, its binding dictionary and its metadata reader. A resolution entry point
  (\<^verbatim>\<open>interfaces.Next\<close>) is a closure over the container; it reads the container as it is
  when the entry point is called, so here it takes the container and its ancestors,
  nearest first, as an argument. It returns a value or throws. A middleware takes the
  entry point it wraps and returns an entry point.
\<close>

record container_view =
  view_id :: nat
  view_options :: js_value
  view_bindingDictionary :: lookup
  view_metadataReader :: metadata_reader

type_synonym "next" = "container_view list \<Rightarrow> next_args \<Rightarrow> error + js_value"

type_synonym middleware = "next \<Rightarrow> next"

text \<open>
  The planner and the resolver (\<^verbatim>\<open>planning/planner\<close>, \<^verbatim>\<open>resolution/resolver\<close>) are not
  among the sources; the container's functions that call them take them as a
  parameter.
\<close>

record engine =
  engine_plan ::
    "container_view list \<Rightarrow> bool \<Rightarrow> target_type \<Rightarrow> service_identifier \<Rightarrow> js_value \<Rightarrow>
     js_value \<Rightarrow> bool \<Rightarrow> error + planning_context"
  engine_resolve :: "container_view list \<Rightarrow> planning_context \<Rightarrow> error + js_value"

section \<open>The container\<close>

text \<open>\<^verbatim>\<open>ContainerSnapshot.of(bindings, middleware)\<close>.\<close>

record container_snapshot =
  snapshot_bindings :: lookup
  snapshot_middleware :: "next option"

definition ContainerSnapshot_of :: "lookup \<Rightarrow> next option \<Rightarrow> container_snapshot" where
  "ContainerSnapshot_of bs mw = \<lparr>snapshot_bindings = bs, snapshot_middleware = mw\<rparr>"

text \<open>
  The fields of \<^verbatim>\<open>ContainerBase\<close>. The options are the object the constructor builds.
  \<open>idCounter\<close> is not a field of the class: it is the counter of \<^verbatim>\<open>utils/id\<close>, from
  which containers and bindings take their identity, as the container finds it; a
  function that makes an object takes its identity there and advances the counter.
  \<^verbatim>\<open>Container\<close> adds the parent, a container or none. The parent is part of the value,
  so a chain of parents is finite and ends in a container with no parent.
\<close>

record container_base =
  container_id :: nat
  options :: js_value
  middleware :: "next option"
  bindingDictionary :: lookup
  snapshots :: "container_snapshot list"
  metadataReader :: metadata_reader
  idCounter :: nat

datatype container = Container (base: container_base) (parent: "container option")

definition update_base :: "(container_base \<Rightarrow> container_base) \<Rightarrow> container \<Rightarrow> container" where
  "update_base f c = Container (f (base c)) (parent c)"

subsection \<open>Construction\<close>

definition ContainerBase_constructor :: "nat \<Rightarrow> js_value \<Rightarrow> error + container_base" where
  "ContainerBase_constructor fresh containerOptions =
     (let opts = (if truthy containerOptions then containerOptions else JObject []) in
      if typeof opts \<noteq> ''object'' then Inl (Error CONTAINER_OPTIONS_MUST_BE_AN_OBJECT None)
      else
        let ds = get_property opts ''defaultScope'' in
        if ds \<noteq> JUndefined \<and> ds \<noteq> BindingScopeEnum_Singleton \<and>
           ds \<noteq> BindingScopeEnum_Transient \<and> ds \<noteq> BindingScopeEnum_Request
        then Inl (Error CONTAINER_OPTIONS_INVALID_DEFAULT_SCOPE None)
        else
          let ds' = (if ds = JUndefined then BindingScopeEnum_Transient else ds);
              ab = get_property opts ''autoBindInjectable'' in
          if ab \<noteq> JUndefined \<and> typeof ab \<noteq> ''boolean''
          then Inl (Error CONTAINER_OPTIONS_INVALID_AUTO_BIND_INJECTABLE None)
          else
            let ab' = (if ab = JUndefined then JBoolean False else ab);
                sb = get_property opts ''skipBaseClassChecks'' in
            if sb \<noteq> JUndefined \<and> typeof sb \<noteq> ''boolean''
            then Inl (Error CONTAINER_OPTIONS_INVALID_SKIP_BASE_CHECK None)
            else
              let sb' = (if sb = JUndefined then JBoolean False else sb) in
              Inr \<lparr>container_id = fresh,
                   options = JObject [(''autoBindInjectable'', ab'), (''defaultScope'', ds'),
                                      (''skipBaseClassChecks'', sb')],
                   middleware = None,
                   bindingDictionary = [],
                   snapshots = [],
                   metadataReader = MetadataReader,
                   idCounter = Suc fresh\<rparr>)"

definition Container_constructor :: "nat \<Rightarrow> js_value \<Rightarrow> error + container" where
  "Container_constructor fresh containerOptions =
     (case ContainerBase_constructor fresh containerOptions of
        Inl e \<Rightarrow> Inl e
      | Inr b \<Rightarrow> Inr (Container b None))"

subsection \<open>Registering and removing bindings\<close>

text \<open>
  A function of the container that changes it returns the container as it is after
  the call; a function that can throw returns the error or the result together with
  the container as the call leaves it.

  \<open>bind\<close> returns the binding it registered, which stands for the
  \<^verbatim>\<open>BindingToSyntax\<close> that wraps it.
\<close>

definition bind :: "service_identifier \<Rightarrow> container \<Rightarrow> binding \<times> container" where
  "bind sid c =
     (let defaultScope = get_property (options (base c)) ''defaultScope'';
          sc = (if truthy defaultScope then defaultScope else BindingScopeEnum_Transient);
          b = new_Binding (idCounter (base c)) sid sc
      in (b, update_base (\<lambda>s. s\<lparr>bindingDictionary := Lookup_add (bindingDictionary s) sid b,
                                  idCounter := Suc (idCounter s)\<rparr>) c))"

definition unbind :: "service_identifier \<Rightarrow> container \<Rightarrow> (error + unit) \<times> container" where
  "unbind sid c =
     (case Lookup_remove (bindingDictionary (base c)) sid of
        Inl e \<Rightarrow> (Inl (Error CANNOT_UNBIND (Some (getServiceIdentifierAsString sid))), c)
      | Inr l \<Rightarrow> (Inr (), update_base (\<lambda>s. s\<lparr>bindingDictionary := l\<rparr>) c))"

definition rebind :: "service_identifier \<Rightarrow> container \<Rightarrow> (error + binding) \<times> container" where
  "rebind sid c =
     (case unbind sid c of
        (Inl e, c') \<Rightarrow> (Inl e, c')
      | (Inr u, c') \<Rightarrow> (let (b, c'') = bind sid c' in (Inr b, c'')))"

definition unbindAll :: "container \<Rightarrow> container" where
  "unbindAll c = update_base (\<lambda>s. s\<lparr>bindingDictionary := []\<rparr>) c"

text \<open>\<open>createChild\<close> makes a container with the given options, or with the options of
  this container when none are given, and makes this container its parent.\<close>

definition createChild :: "nat \<Rightarrow> js_value \<Rightarrow> container \<Rightarrow> error + container" where
  "createChild fresh containerOptions c =
     (case Container_constructor fresh
             (if truthy containerOptions then containerOptions else options (base c)) of
        Inl e \<Rightarrow> Inl e
      | Inr child \<Rightarrow> Inr (Container (base child) (Some c)))"

subsection \<open>Queries\<close>

definition ContainerBase_isBound :: "container_base \<Rightarrow> service_identifier \<Rightarrow> bool" where
  "ContainerBase_isBound s sid = Lookup_hasKey (bindingDictionary s) sid"

definition ContainerBase_isBoundTagged ::
  "container_base \<Rightarrow> service_identifier \<Rightarrow> js_value \<Rightarrow> js_value \<Rightarrow> bool" where
  "ContainerBase_isBoundTagged s sid key val =
     (if Lookup_hasKey (bindingDictionary s) sid
      then (case Lookup_get (bindingDictionary s) sid of
              Inl e \<Rightarrow> False
            | Inr bindings \<Rightarrow>
                (let request = createMockRequest (container_id s) sid key val
                 in list_ex (\<lambda>b. constraint b request) bindings))
      else False)"

fun isBound :: "container \<Rightarrow> service_identifier \<Rightarrow> bool" where
  "isBound (Container s None) sid = ContainerBase_isBound s sid"
| "isBound (Container s (Some p)) sid =
     (let bound = ContainerBase_isBound s sid in
      if \<not> bound then isBound p sid else bound)"

fun isBoundTagged :: "container \<Rightarrow> service_identifier \<Rightarrow> js_value \<Rightarrow> js_value \<Rightarrow> bool" where
  "isBoundTagged (Container s None) sid key val = ContainerBase_isBoundTagged s sid key val"
| "isBoundTagged (Container s (Some p)) sid key val =
     (let bound = ContainerBase_isBoundTagged s sid key val in
      if \<not> bound then isBoundTagged p sid key val else bound)"

definition isBoundNamed :: "container \<Rightarrow> service_identifier \<Rightarrow> js_value \<Rightarrow> bool" where
  "isBoundNamed c sid named = isBoundTagged c sid NAMED_TAG named"

subsection \<open>Snapshots\<close>

text \<open>The snapshots are an array used as a stack: \<open>push\<close> adds at the end and \<open>pop\<close>
  takes from the end.\<close>

definition snapshot :: "container \<Rightarrow> container" where
  "snapshot c =
     update_base (\<lambda>s.
       let (cl, n) = Lookup_clone (idCounter s) (bindingDictionary s) in
       s\<lparr>snapshots := snapshots s @ [ContainerSnapshot_of cl (middleware s)],
         idCounter := n\<rparr>) c"

definition restore :: "container \<Rightarrow> (error + unit) \<times> container" where
  "restore c =
     (if snapshots (base c) = [] then (Inl (Error NO_MORE_SNAPSHOTS_AVAILABLE None), c)
      else
        let snap = last (snapshots (base c)) in
        (Inr (), update_base (\<lambda>s. s\<lparr>snapshots := butlast (snapshots s),
                                     bindingDictionary := snapshot_bindings snap,
                                     middleware := snapshot_middleware snap\<rparr>) c))"

subsection \<open>Resolution and middleware\<close>

fun view :: "container \<Rightarrow> container_view list" where
  "view (Container s p) =
     \<lparr>view_id = container_id s, view_options = options s,
      view_bindingDictionary = bindingDictionary s,
      view_metadataReader = metadataReader s\<rparr>
     # (case p of None \<Rightarrow> [] | Some q \<Rightarrow> view q)"

definition planAndResolve :: "engine \<Rightarrow> next" where
  "planAndResolve eng = (\<lambda>this args.
     case engine_plan eng this (isMultiInject args) (targetType args)
            (args_serviceIdentifier args) (args_key args) (args_value args)
            (avoidConstraints args) of
       Inl e \<Rightarrow> Inl e
     | Inr ctx \<Rightarrow> engine_resolve eng this (contextInterceptor args ctx))"

definition applyMiddleware :: "engine \<Rightarrow> middleware list \<Rightarrow> container \<Rightarrow> container" where
  "applyMiddleware eng middlewares c =
     (let initial = (case middleware (base c) of Some m \<Rightarrow> m | None \<Rightarrow> planAndResolve eng)
      in update_base (\<lambda>s. s\<lparr>middleware :=
           Some (foldl (\<lambda>prev curr. curr prev) initial middlewares)\<rparr>) c)"

text \<open>\<^verbatim>\<open>_get\<close>. What resolution does to the caches of the bindings is not modelled: the
  function returns what the caller gets.\<close>

definition defaultArgs ::
  "bool \<Rightarrow> bool \<Rightarrow> target_type \<Rightarrow> service_identifier \<Rightarrow> js_value \<Rightarrow> js_value \<Rightarrow> next_args"
  where
  "defaultArgs avoid multi tt sid key val =
     \<lparr>avoidConstraints = avoid, contextInterceptor = (\<lambda>ctx. ctx), isMultiInject = multi,
      args_key = key, args_serviceIdentifier = sid, targetType = tt, args_value = val\<rparr>"

definition private_get ::
  "engine \<Rightarrow> bool \<Rightarrow> bool \<Rightarrow> target_type \<Rightarrow> service_identifier \<Rightarrow> js_value \<Rightarrow> js_value \<Rightarrow>
   container \<Rightarrow> error + js_value" where
  "private_get eng avoid multi tt sid key val c =
     (case middleware (base c) of
        Some m \<Rightarrow>
          (case m (view c) (defaultArgs avoid multi tt sid key val) of
             Inl e \<Rightarrow> Inl e
           | Inr result \<Rightarrow>
               if result = JUndefined \<or> result = JNull
               then Inl (Error INVALID_MIDDLEWARE_RETURN None)
               else Inr result)
      | None \<Rightarrow> planAndResolve eng (view c) (defaultArgs avoid multi tt sid key val))"

definition get :: "engine \<Rightarrow> service_identifier \<Rightarrow> container \<Rightarrow> error + js_value" where
  "get eng sid c = private_get eng False False Variable sid JUndefined JUndefined c"

definition getTagged ::
  "engine \<Rightarrow> service_identifier \<Rightarrow> js_value \<Rightarrow> js_value \<Rightarrow> container \<Rightarrow> error + js_value" where
  "getTagged eng sid key val c = private_get eng False False Variable sid key val c"

definition getNamed ::
  "engine \<Rightarrow> service_identifier \<Rightarrow> js_value \<Rightarrow> container \<Rightarrow> error + js_value" where
  "getNamed eng sid named c = getTagged eng sid NAMED_TAG named c"

definition getAll :: "engine \<Rightarrow> service_identifier \<Rightarrow> container \<Rightarrow> error + js_value" where
  "getAll eng sid c = private_get eng True True Variable sid JUndefined JUndefined c"

definition getAllTagged ::
  "engine \<Rightarrow> service_identifier \<Rightarrow> js_value \<Rightarrow> js_value \<Rightarrow> container \<Rightarrow> error + js_value" where
  "getAllTagged eng sid key val c = private_get eng False True Variable sid key val c"

definition getAllNamed ::
  "engine \<Rightarrow> service_identifier \<Rightarrow> js_value \<Rightarrow> container \<Rightarrow> error + js_value" where
  "getAllNamed eng sid named c = getAllTagged eng sid NAMED_TAG named c"

subsection \<open>Modules\<close>

text \<open>
  Modelled from the spec: the fluent syntax (\<^verbatim>\<open>syntax/binding_to_syntax\<close> and the
  syntaxes it leads to) is not among the sources. Through the syntax that \<open>bind\<close>
  returns, the caller sets the production strategy, the scope and the constraint of
  the binding. The binding is the object in the dictionary, so the change is made
  there. The syntax is used when \<open>bind\<close> has just returned it, and then its binding is
  the last one registered under its identifier: \<open>update_last\<close> changes that one.
\<close>

datatype fluent =
    To service_identifier
  | ToConstantValue js_value
  | ToDynamicValue nat
  | ToFactory nat
  | ToProvider nat
  | InSingletonScope
  | InTransientScope
  | InRequestScope
  | WhenTargetNamed js_value
  | WhenTargetTagged js_value js_value
  | When "request \<Rightarrow> bool"

text \<open>Modelled from the spec: what a call of the fluent syntax does to the binding.\<close>

fun apply_fluent :: "fluent \<Rightarrow> binding \<Rightarrow> binding" where
  "apply_fluent (To cls) b = b\<lparr>production := Instance cls\<rparr>"
| "apply_fluent (ToConstantValue v) b = b\<lparr>production := ConstantValue v, cache := Some v\<rparr>"
| "apply_fluent (ToDynamicValue f) b = b\<lparr>production := DynamicValue f\<rparr>"
| "apply_fluent (ToFactory f) b = b\<lparr>production := Factory f\<rparr>"
| "apply_fluent (ToProvider f) b = b\<lparr>production := Provider f\<rparr>"
| "apply_fluent InSingletonScope b = b\<lparr>scope := BindingScopeEnum_Singleton\<rparr>"
| "apply_fluent InTransientScope b = b\<lparr>scope := BindingScopeEnum_Transient\<rparr>"
| "apply_fluent InRequestScope b = b\<lparr>scope := BindingScopeEnum_Request\<rparr>"
| "apply_fluent (WhenTargetNamed name) b =
     b\<lparr>constraint := (\<lambda>r. request_key r = NAMED_TAG \<and> request_value r = name)\<rparr>"
| "apply_fluent (WhenTargetTagged key val) b =
     b\<lparr>constraint := (\<lambda>r. request_key r = key \<and> request_value r = val)\<rparr>"
| "apply_fluent (When p) b = b\<lparr>constraint := p\<rparr>"

text \<open>Modelled from the spec: a change made through the syntax reaches the last binding
  registered under the identifier.\<close>

fun update_last :: "service_identifier \<Rightarrow> (binding \<Rightarrow> binding) \<Rightarrow> lookup \<Rightarrow> lookup" where
  "update_last k f [] = []"
| "update_last k f ((k', bs) # l) =
     (if k' = k then (k', if bs = [] then [] else butlast bs @ [f (last bs)]) # l
      else (k', bs) # update_last k f l)"

text \<open>Modelled from the spec: the calls \<open>steps\<close> of the fluent syntax, made one after
  the other on the syntax of the binding \<open>b\<close>.\<close>

definition configure :: "binding \<Rightarrow> fluent list \<Rightarrow> container \<Rightarrow> container" where
  "configure b steps c =
     update_base (\<lambda>s. s\<lparr>bindingDictionary :=
       update_last (serviceIdentifier b) (\<lambda>b'. foldl (\<lambda>b'' st. apply_fluent st b'') b' steps)
         (bindingDictionary s)\<rparr>) c"

text \<open>\<^verbatim>\<open>_getContainerModuleHelpersFactory\<close>: the helpers a module's registry is called
  with. \<open>setModuleId\<close> writes the module id into the binding behind the syntax.\<close>

definition setModuleId :: "binding \<Rightarrow> nat \<Rightarrow> container \<Rightarrow> binding \<times> container" where
  "setModuleId b mId c =
     (b\<lparr>moduleId := Some mId\<rparr>,
      update_base (\<lambda>s. s\<lparr>bindingDictionary :=
        update_last (serviceIdentifier b) (\<lambda>b'. b'\<lparr>moduleId := Some mId\<rparr>)
          (bindingDictionary s)\<rparr>) c)"

definition bindFunction :: "nat \<Rightarrow> service_identifier \<Rightarrow> container \<Rightarrow> binding \<times> container" where
  "bindFunction mId sid c = (let (b, c') = bind sid c in setModuleId b mId c')"

definition unbindFunction ::
  "nat \<Rightarrow> service_identifier \<Rightarrow> container \<Rightarrow> (error + unit) \<times> container" where
  "unbindFunction mId sid c = unbind sid c"

definition isboundFunction :: "nat \<Rightarrow> service_identifier \<Rightarrow> container \<Rightarrow> bool" where
  "isboundFunction mId sid c = isBound c sid"

definition rebindFunction ::
  "nat \<Rightarrow> service_identifier \<Rightarrow> container \<Rightarrow> (error + binding) \<times> container" where
  "rebindFunction mId sid c =
     (case rebind sid c of
        (Inl e, c') \<Rightarrow> (Inl e, c')
      | (Inr b, c') \<Rightarrow> (let (b', c'') = setModuleId b mId c' in (Inr b', c'')))"

text \<open>
  A module is an id and a registry, the callback that \<open>load\<close> calls with the helpers.
  The callback is modelled by what it does with them: it calls \<open>bind\<close> or \<open>rebind\<close>
  and configures the binding through the syntax it gets back, calls \<open>unbind\<close>, asks
  \<open>isBound\<close> and goes on according to the answer, throws, or returns. Where a helper
  can throw, the callback says how it goes on in either case; a callback that does not
  catch the error goes on with \<open>Throw\<close>.
\<close>

datatype registry =
    Return
  | Throw error
  | CallBind service_identifier "fluent list" registry
  | CallUnbind service_identifier registry "error \<Rightarrow> registry"
  | CallIsBound service_identifier "bool \<Rightarrow> registry"
  | CallRebind service_identifier "fluent list" registry "error \<Rightarrow> registry"

record container_module =
  module_id :: nat
  module_registry :: registry

primrec run_registry :: "nat \<Rightarrow> registry \<Rightarrow> container \<Rightarrow> (error + unit) \<times> container" where
  "run_registry mId Return c = (Inr (), c)"
| "run_registry mId (Throw e) c = (Inl e, c)"
| "run_registry mId (CallBind sid steps k) c =
     (let (b, c') = bindFunction mId sid c
      in run_registry mId k (configure b steps c'))"
| "run_registry mId (CallUnbind sid k h) c =
     (case unbindFunction mId sid c of
        (Inl e, c') \<Rightarrow> run_registry mId (h e) c'
      | (Inr u, c') \<Rightarrow> run_registry mId k c')"
| "run_registry mId (CallIsBound sid k) c =
     run_registry mId (k (isboundFunction mId sid c)) c"
| "run_registry mId (CallRebind sid steps k h) c =
     (case rebindFunction mId sid c of
        (Inl e, c') \<Rightarrow> run_registry mId (h e) c'
      | (Inr b, c') \<Rightarrow> run_registry mId k (configure b steps c'))"

fun load :: "container_module list \<Rightarrow> container \<Rightarrow> (error + unit) \<times> container" where
  "load [] c = (Inr (), c)"
| "load (currentModule # modules) c =
     (case run_registry (module_id currentModule) (module_registry currentModule) c of
        (Inl e, c') \<Rightarrow> (Inl e, c')
      | (Inr u, c') \<Rightarrow> load modules c')"

definition unload :: "container_module list \<Rightarrow> container \<Rightarrow> container" where
  "unload modules c =
     foldl (\<lambda>c' m.
       update_base (\<lambda>s. s\<lparr>bindingDictionary :=
         Lookup_removeByCondition (bindingDictionary s)
           (\<lambda>item. moduleId item = Some (module_id m))\<rparr>) c') c modules"

subsection \<open>Sequences of mutations\<close>

text \<open>
  The calls that change the bindings or the middleware of a container, and the
  container after such a call, whether the call returned or threw.
\<close>

datatype mutation =
    MBind service_identifier "fluent list"
  | MRebind service_identifier "fluent list"
  | MUnbind service_identifier
  | MUnbindAll
  | MLoad "container_module list"
  | MUnload "container_module list"
  | MApplyMiddleware "middleware list"

fun mutate :: "engine \<Rightarrow> mutation \<Rightarrow> container \<Rightarrow> container" where
  "mutate eng (MBind sid steps) c = (let (b, c') = bind sid c in configure b steps c')"
| "mutate eng (MRebind sid steps) c =
     (case rebind sid c of
        (Inl e, c') \<Rightarrow> c'
      | (Inr b, c') \<Rightarrow> configure b steps c')"
| "mutate eng (MUnbind sid) c = snd (unbind sid c)"
| "mutate eng MUnbindAll c = unbindAll c"
| "mutate eng (MLoad modules) c = snd (load modules c)"
| "mutate eng (MUnload modules) c = unload modules c"
| "mutate eng (MApplyMiddleware middlewares) c = applyMiddleware eng middlewares c"


text \<open>The bindings of a registry with their keys, in the order of the registry.\<close>

definition entries :: "lookup \<Rightarrow> (service_identifier \<times> binding) list" where
  "entries l = concat (map (\<lambda>(k, bs). map (Pair k) bs) l)"

section \<open>Notions used in the statements\<close>

text \<open>The ancestors of a container, nearest first.\<close>

fun ancestors :: "container \<Rightarrow> container list" where
  "ancestors (Container s None) = []"
| "ancestors (Container s (Some p)) = p # ancestors p"


text \<open>What the caller of a function of the \<open>get\<close> family receives when the middleware
  chain has produced \<open>r\<close>.\<close>

definition returned :: "error + js_value \<Rightarrow> error + js_value" where
  "returned r =
     (case r of
        Inl e \<Rightarrow> Inl e
      | Inr v \<Rightarrow>
          if v = JUndefined \<or> v = JNull then Inl (Error INVALID_MIDDLEWARE_RETURN None)
          else Inr v)"

subsection \<open>Example values\<close>

definition ninja :: service_identifier where
  "ninja = StringIdentifier ''Ninja''"

definition katana :: service_identifier where
  "katana = StringIdentifier ''Katana''"

definition shuriken :: service_identifier where
  "shuriken = StringIdentifier ''Shuriken''"

definition default_options :: js_value where
  "default_options =
     JObject [(''autoBindInjectable'', JBoolean False), (''defaultScope'', JString ''Transient''),
              (''skipBaseClassChecks'', JBoolean False)]"

text \<open>The container that \<^verbatim>\<open>new Container()\<close> makes when the counter is at 0.\<close>

definition empty_container :: container where
  "empty_container =
     Container \<lparr>container_id = 0, options = default_options, middleware = None,
                bindingDictionary = [], snapshots = [], metadataReader = MetadataReader,
                idCounter = 1\<rparr> None"

text \<open>The same container after \<^verbatim>\<open>bind("Ninja")\<close>.\<close>

definition ninja_binding :: binding where
  "ninja_binding = new_Binding 1 ninja (JString ''Transient'')"

definition ninja_container :: container where
  "ninja_container =
     Container \<lparr>container_id = 0, options = default_options, middleware = None,
                bindingDictionary = [(ninja, [ninja_binding])], snapshots = [],
                metadataReader = MetadataReader, idCounter = 2\<rparr> None"

text \<open>An engine that resolves every request to the same value, and two middlewares:
  one returns \<^verbatim>\<open>null\<close> without calling the entry point it wraps, the other wraps the
  result of the entry point.\<close>

definition example_engine :: engine where
  "example_engine =
     \<lparr>engine_plan = (\<lambda>this multi tt sid key val avoid. Inr (new_Context 0 0)),
      engine_resolve = (\<lambda>this ctx. Inr (JString ''resolved''))\<rparr>"

definition null_middleware :: middleware where
  "null_middleware = (\<lambda>nxt this args. Inr JNull)"

definition wrap_middleware :: "string \<Rightarrow> middleware" where
  "wrap_middleware name = (\<lambda>nxt this args.
     case nxt this args of Inl e \<Rightarrow> Inl e | Inr v \<Rightarrow> Inr (JArray [JString name, v]))"

text \<open>Two modules: the warriors bind a ninja, the weapons bind a katana and a
  shuriken.\<close>

definition warriors :: container_module where
  "warriors = \<lparr>module_id = 10, module_registry = CallBind ninja [To ninja] Return\<rparr>"

definition weapons :: container_module where
  "weapons =
     \<lparr>module_id = 11,
      module_registry = CallBind katana [To katana] (CallBind shuriken [To shuriken] Return)\<rparr>"

text \<open>A child of a container that binds a ninja for targets named \<^verbatim>\<open>master\<close>; the
  child itself binds a katana.\<close>

definition parent_container :: container where
  "parent_container =
     Container \<lparr>container_id = 0, options = default_options, middleware = None,
                bindingDictionary =
                  [(ninja, [apply_fluent (WhenTargetNamed (JString ''master''))
                              (new_Binding 1 ninja (JString ''Transient''))])],
                snapshots = [], metadataReader = MetadataReader, idCounter = 2\<rparr> None"

definition child_container :: container where
  "child_container =
     Container \<lparr>container_id = 2, options = default_options, middleware = None,
                bindingDictionary = [(katana, [new_Binding 3 katana (JString ''Transient'')])],
                snapshots = [], metadataReader = MetadataReader, idCounter = 4\<rparr>
       (Some parent_container)"

section \<open>Facts about the model\<close>

lemma base_update_base [simp]: "base (update_base f c) = f (base c)"
  by (simp add: update_base_def)

lemma parent_update_base [simp]: "parent (update_base f c) = parent c"
  by (simp add: update_base_def)

lemma update_base_twice [simp]:
  "update_base f (update_base g c) = update_base (\<lambda>s. f (g s)) c"
  by (simp add: update_base_def)

lemma view_update_middleware [simp]:
  "view (update_base (\<lambda>s. s\<lparr>middleware := m\<rparr>) c) = view c"
  by (cases c) (simp add: update_base_def)

subsection \<open>The registry\<close>

lemma hasKey_map_of: "Lookup_hasKey l k \<longleftrightarrow> map_of l k \<noteq> None"
  by (simp add: Lookup_hasKey_def map_of_eq_None_iff)

lemma map_of_filter_key:
  "map_of (filter (\<lambda>e. fst e \<noteq> k) l) k' = (if k' = k then None else map_of l k')"
  by (induction l) auto

lemma map_of_Lookup_add:
  "map_of (Lookup_add l k b) k' =
     (if k' = k then Some ((case map_of l k of None \<Rightarrow> [] | Some bs \<Rightarrow> bs) @ [b])
      else map_of l k')"
  by (induction l k b rule: Lookup_add.induct) auto

lemma entries_Nil [simp]: "entries [] = []"
  by (simp add: entries_def)

lemma entries_Cons [simp]: "entries ((k, bs) # l) = map (Pair k) bs @ entries l"
  by (simp add: entries_def)

lemma filter_Pair: "filter (\<lambda>(k, b). P b) (map (Pair k) bs) = map (Pair k) (filter P bs)"
  by (induction bs) auto

lemma entries_removeByCondition:
  "entries (Lookup_removeByCondition l p) = filter (\<lambda>(k, b). \<not> p b) (entries l)"
  by (induction l p rule: Lookup_removeByCondition.induct) (auto simp: Let_def filter_Pair)

lemma keys_removeByCondition:
  "map fst (Lookup_removeByCondition l p) =
     map fst (filter (\<lambda>(k, bs). \<exists>b \<in> set bs. \<not> p b) l)"
  by (induction l p rule: Lookup_removeByCondition.induct)
     (auto simp: Let_def filter_empty_conv)

lemma nonempty_removeByCondition:
  "(k, bs) \<in> set (Lookup_removeByCondition l p) \<Longrightarrow> bs \<noteq> []"
  by (induction l p rule: Lookup_removeByCondition.induct) (auto simp: Let_def split: if_splits)

lemma entries_Lookup_add: "entries (Lookup_add l k b) \<noteq> [] \<and> (k, b) \<in> set (entries (Lookup_add l k b))"
  by (induction l k b rule: Lookup_add.induct) auto

lemma update_last_Lookup_add:
  "update_last k f (Lookup_add l k b) = Lookup_add l k (f b)"
  by (induction l k b rule: Lookup_add.induct) auto



subsection \<open>Unbinding\<close>

lemma unbind_absent:
  "\<not> Lookup_hasKey (bindingDictionary (base c)) sid \<Longrightarrow>
   unbind sid c = (Inl (Error CANNOT_UNBIND (Some (getServiceIdentifierAsString sid))), c)"
  by (simp add: unbind_def Lookup_remove_def)

lemma unbind_present:
  "Lookup_hasKey (bindingDictionary (base c)) sid \<Longrightarrow>
   unbind sid c = (Inr (), update_base (\<lambda>s. s\<lparr>bindingDictionary :=
       filter (\<lambda>e. fst e \<noteq> sid) (bindingDictionary s)\<rparr>) c)"
  by (simp add: unbind_def Lookup_remove_def update_base_def)

subsection \<open>No mutation touches the stack of snapshots\<close>

lemma snapshots_bind: "snapshots (base (snd (bind sid c))) = snapshots (base c)"
  by (simp add: bind_def Let_def)

lemma snapshots_unbind: "snapshots (base (snd (unbind sid c))) = snapshots (base c)"
  by (simp add: unbind_def split: sum.splits)

lemma snapshots_rebind: "snapshots (base (snd (rebind sid c))) = snapshots (base c)"
proof (cases "unbind sid c")
  case (Pair r c')
  then have "snapshots (base c') = snapshots (base c)"
    using snapshots_unbind [of sid c] by simp
  then show ?thesis
    using Pair by (cases r) (simp_all add: rebind_def case_prod_unfold Let_def snapshots_bind)
qed

lemma snapshots_configure: "snapshots (base (configure i steps c)) = snapshots (base c)"
  by (simp add: configure_def)

lemma snapshots_setModuleId: "snapshots (base (snd (setModuleId b mId c))) = snapshots (base c)"
  by (simp add: setModuleId_def)

lemma snapshots_bindFunction:
  "snapshots (base (snd (bindFunction mId sid c))) = snapshots (base c)"
  by (simp add: bindFunction_def case_prod_unfold Let_def snapshots_setModuleId snapshots_bind)

lemma snapshots_rebindFunction:
  "snapshots (base (snd (rebindFunction mId sid c))) = snapshots (base c)"
proof (cases "rebind sid c")
  case (Pair r c')
  then have "snapshots (base c') = snapshots (base c)"
    using snapshots_rebind [of sid c] by simp
  then show ?thesis
    using Pair
    by (cases r)
       (simp_all add: rebindFunction_def case_prod_unfold Let_def snapshots_setModuleId)
qed

lemma snapshots_run_registry:
  "snapshots (base (snd (run_registry mId r c))) = snapshots (base c)"
proof (induction r arbitrary: c)
  case (CallBind sid steps k)
  then show ?case
    by (simp add: case_prod_unfold Let_def snapshots_configure snapshots_bindFunction)
next
  case (CallUnbind sid k h)
  obtain r c' where u: "unbind sid c = (r, c')" by (cases "unbind sid c")
  then have "snapshots (base c') = snapshots (base c)"
    using snapshots_unbind [of sid c] by simp
  then show ?case
    using u CallUnbind by (cases r) (simp_all add: unbindFunction_def)
next
  case (CallRebind sid steps k h)
  obtain r c' where u: "rebindFunction mId sid c = (r, c')"
    by (cases "rebindFunction mId sid c")
  then have "snapshots (base c') = snapshots (base c)"
    using snapshots_rebindFunction [of mId sid c] by simp
  then show ?case
    using u CallRebind by (cases r) (simp_all add: snapshots_configure)
qed simp_all

lemma snapshots_load: "snapshots (base (snd (load ms c))) = snapshots (base c)"
proof (induction ms arbitrary: c)
  case (Cons m ms)
  obtain r c' where u: "run_registry (module_id m) (module_registry m) c = (r, c')"
    by (cases "run_registry (module_id m) (module_registry m) c")
  then have "snapshots (base c') = snapshots (base c)"
    using snapshots_run_registry [of "module_id m" "module_registry m" c] by simp
  then show ?case
    using u Cons by (cases r) simp_all
qed simp

lemma snapshots_unload: "snapshots (base (unload ms c)) = snapshots (base c)"
  by (induction ms arbitrary: c rule: rev_induct) (simp_all add: unload_def)

lemma snapshots_mutate: "snapshots (base (mutate eng m c)) = snapshots (base c)"
proof (cases m)
  case (MBind sid steps)
  then show ?thesis
    by (simp add: case_prod_unfold Let_def snapshots_configure snapshots_bind)
next
  case (MRebind sid steps)
  obtain r c' where u: "rebind sid c = (r, c')" by (cases "rebind sid c")
  then have "snapshots (base c') = snapshots (base c)"
    using snapshots_rebind [of sid c] by simp
  then show ?thesis
    using u MRebind by (cases r) (simp_all add: snapshots_configure)
qed (simp_all add: snapshots_unbind snapshots_load snapshots_unload unbindAll_def
       applyMiddleware_def Let_def)


subsection \<open>Unloading\<close>

lemma unload_single:
  "unload [m] c = update_base (\<lambda>s. s\<lparr>bindingDictionary :=
      Lookup_removeByCondition (bindingDictionary s)
        (\<lambda>item. moduleId item = Some (module_id m))\<rparr>) c"
  by (simp add: unload_def)

lemma unload_Cons: "unload (m # ms) c = unload ms (unload [m] c)"
  by (simp add: unload_def)

lemma entries_unload:
  "entries (bindingDictionary (base (unload ms c))) =
     filter (\<lambda>(k, b). \<forall>m \<in> set ms. moduleId b \<noteq> Some (module_id m))
       (entries (bindingDictionary (base c)))"
proof (induction ms arbitrary: c)
  case Nil
  show ?case by (simp add: unload_def)
next
  case (Cons m ms)
  show ?case
    unfolding unload_Cons [of m ms c] Cons.IH
    by (simp add: unload_single entries_removeByCondition case_prod_unfold conj_commute)
qed

lemma bindFunction_eq:
  "bindFunction mId sid c =
     ((fst (bind sid c))\<lparr>moduleId := Some mId\<rparr>,
      update_base (\<lambda>s. s\<lparr>bindingDictionary :=
          Lookup_add (bindingDictionary s) sid ((fst (bind sid c))\<lparr>moduleId := Some mId\<rparr>),
        idCounter := Suc (idCounter s)\<rparr>) c)"
  by (simp add: bindFunction_def setModuleId_def bind_def Let_def new_Binding_def
      update_last_Lookup_add update_base_def)

lemma bindFunction_stamps:
  "moduleId (fst (bindFunction mId sid c)) = Some mId
   \<and> (sid, fst (bindFunction mId sid c))
       \<in> set (entries (bindingDictionary (base (snd (bindFunction mId sid c)))))"
  using entries_Lookup_add [of "bindingDictionary (base c)" sid]
  by (simp add: bindFunction_eq)

lemma rebindFunction_eq:
  "rebindFunction mId sid c =
     (case unbind sid c of
        (Inl e, c') \<Rightarrow> (Inl e, c')
      | (Inr u, c') \<Rightarrow> (Inr (fst (bindFunction mId sid c')), snd (bindFunction mId sid c')))"
proof (cases "unbind sid c")
  case (Pair r c')
  then show ?thesis
    by (cases r)
       (simp_all add: rebindFunction_def rebind_def bindFunction_def case_prod_unfold Let_def)
qed

lemma rebindFunction_stamps:
  assumes "rebindFunction mId sid c = (Inr b, c')"
  shows "moduleId b = Some mId \<and> (sid, b) \<in> set (entries (bindingDictionary (base c')))"
proof (cases "unbind sid c")
  case (Pair r c0)
  show ?thesis
  proof (cases r)
    case (Inl e)
    with Pair assms show ?thesis by (simp add: rebindFunction_eq)
  next
    case (Inr u)
    with Pair assms have "b = fst (bindFunction mId sid c0)" "c' = snd (bindFunction mId sid c0)"
      by (simp_all add: rebindFunction_eq)
    then show ?thesis
      using bindFunction_stamps [of mId sid c0] by simp
  qed
qed

subsection \<open>The chain of ancestors\<close>

lemma isBound_chain:
  "isBound c sid \<longleftrightarrow>
     (\<exists>a \<in> set (c # ancestors c). Lookup_hasKey (bindingDictionary (base a)) sid)"
  by (induction c sid rule: isBound.induct) (auto simp: ContainerBase_isBound_def Let_def)

lemma isBoundTagged_chain:
  "isBoundTagged c sid k v \<longleftrightarrow>
     (\<exists>a \<in> set (c # ancestors c). ContainerBase_isBoundTagged (base a) sid k v)"
  by (induction c sid k v rule: isBoundTagged.induct) (auto simp: Let_def)

lemma ancestors_trans: "a \<in> set (ancestors c) \<Longrightarrow> set (ancestors a) \<subseteq> set (ancestors c)"
  by (induction c rule: ancestors.induct) auto

lemma isBound_ancestors:
  "isBound c sid \<longleftrightarrow> Lookup_hasKey (bindingDictionary (base c)) sid
      \<or> (\<exists>a \<in> set (ancestors c). isBound a sid)"
  using ancestors_trans [of _ c] by (auto simp: isBound_chain [of _ sid])

lemma isBoundTagged_ancestors:
  "isBoundTagged c sid k v \<longleftrightarrow> ContainerBase_isBoundTagged (base c) sid k v
      \<or> (\<exists>a \<in> set (ancestors c). isBoundTagged a sid k v)"
  using ancestors_trans [of _ c] by (auto simp: isBoundTagged_chain [of _ sid k v])

lemma isBoundTagged_local:
  "ContainerBase_isBoundTagged s sid k v \<longleftrightarrow>
     (\<exists>bs. Lookup_get (bindingDictionary s) sid = Inr bs
        \<and> (\<exists>b \<in> set bs. constraint b (createMockRequest (container_id s) sid k v)))"
  by (auto simp: ContainerBase_isBoundTagged_def Lookup_get_def hasKey_map_of list_ex_iff
      split: option.splits)

subsection \<open>Taking a snapshot\<close>

lemma snapshots_snapshot:
  "snapshots (base (snapshot c)) =
     snapshots (base c) @
       [ContainerSnapshot_of
          (fst (Lookup_clone (idCounter (base c)) (bindingDictionary (base c))))
          (middleware (base c))]"
  by (simp add: snapshot_def case_prod_unfold Let_def)

section \<open>Properties of the container\<close>

text \<open>
  C1. \<open>rebind\<close> is \<open>unbind\<close> followed by \<open>bind\<close>, and it is not tolerant of an absent
  identifier: on an identifier with no binding in the container it fails with the
  \<open>CANNOT_UNBIND\<close> error of \<open>unbind\<close>, binds nothing and leaves the container as it was.
  On an identifier that is registered it succeeds; afterwards the identifier has
  exactly one binding, the new one, and every other key has the bindings it had.
\<close>

theorem rebind_unbind_then_bind:
  "(\<not> Lookup_hasKey (bindingDictionary (base c)) sid \<longrightarrow>
      rebind sid c = (Inl (Error CANNOT_UNBIND (Some (getServiceIdentifierAsString sid))), c))
   \<and> (Lookup_hasKey (bindingDictionary (base c)) sid \<longrightarrow>
      (\<exists>b c'. rebind sid c = (Inr b, c')
         \<and> fst (unbind sid c) = Inr ()
         \<and> (b, c') = bind sid (snd (unbind sid c))
         \<and> b = new_Binding (idCounter (base c)) sid (scope b)
         \<and> Lookup_get (bindingDictionary (base c')) sid = Inr [b]
         \<and> (\<forall>k. k \<noteq> sid \<longrightarrow> Lookup_get (bindingDictionary (base c')) k
                           = Lookup_get (bindingDictionary (base c)) k)))"
  by (auto simp: rebind_def unbind_absent unbind_present bind_def Let_def Lookup_get_def
      map_of_Lookup_add map_of_filter_key new_Binding_def)

theorem rebind_unbind_then_bind_witness:
  "rebind ninja empty_container
     = (Inl (Error CANNOT_UNBIND (Some ''Ninja'')), empty_container)
   \<and> fst (rebind ninja (snd (bind ninja ninja_container)))
       = Inr (new_Binding 3 ninja (JString ''Transient''))
   \<and> Lookup_get (bindingDictionary (base (snd (bind ninja ninja_container)))) ninja
       = Inr [ninja_binding, new_Binding 2 ninja (JString ''Transient'')]
   \<and> Lookup_get (bindingDictionary (base (snd (rebind ninja (snd (bind ninja ninja_container))))))
        ninja
       = Inr [new_Binding 3 ninja (JString ''Transient'')]"
proof -
  define c where "c = snd (bind ninja ninja_container)"
  have c: "c = Container \<lparr>container_id = 0, options = default_options, middleware = None,
                bindingDictionary =
                  [(ninja, [ninja_binding, new_Binding 2 ninja (JString ''Transient'')])],
                snapshots = [], metadataReader = MetadataReader, idCounter = 3\<rparr> None"
    by (simp add: c_def bind_def ninja_container_def default_options_def update_base_def
        BindingScopeEnum_Transient_def Let_def)
  have e: "\<not> Lookup_hasKey (bindingDictionary (base empty_container)) ninja"
    by (simp add: empty_container_def Lookup_hasKey_def)
  have h: "Lookup_hasKey (bindingDictionary (base c)) ninja"
    by (simp add: c Lookup_hasKey_def)
  have u: "snd (unbind ninja c) = Container \<lparr>container_id = 0, options = default_options,
      middleware = None, bindingDictionary = [], snapshots = [],
      metadataReader = MetadataReader, idCounter = 3\<rparr> None"
    by (simp add: unbind_present [OF h]) (simp add: c update_base_def)
  have b: "bind ninja (snd (unbind ninja c)) =
      (new_Binding 3 ninja (JString ''Transient''),
       Container \<lparr>container_id = 0, options = default_options, middleware = None,
         bindingDictionary = [(ninja, [new_Binding 3 ninja (JString ''Transient'')])],
         snapshots = [], metadataReader = MetadataReader, idCounter = 4\<rparr> None)"
    unfolding u
    by (simp add: bind_def default_options_def update_base_def BindingScopeEnum_Transient_def
        Let_def)
  have g: "Lookup_get (bindingDictionary (base c)) ninja
      = Inr [ninja_binding, new_Binding 2 ninja (JString ''Transient'')]"
    by (simp add: c Lookup_get_def)
  show ?thesis
    using rebind_unbind_then_bind [of empty_container ninja] e
      rebind_unbind_then_bind [of c ninja] h g
    unfolding b c_def [symmetric]
    by (auto simp: ninja_def)
qed

theorem rebind_absent_counterexample:
  "\<not> Lookup_hasKey (bindingDictionary (base empty_container)) ninja
   \<and> fst (rebind ninja empty_container) = Inl (Error CANNOT_UNBIND (Some ''Ninja''))
   \<and> Lookup_get (bindingDictionary (base (snd (rebind ninja empty_container)))) ninja
       = Inl (Error KEY_NOT_FOUND None)"
  by (simp add: rebind_def unbind_def Lookup_remove_def Lookup_hasKey_def Lookup_get_def
      empty_container_def ninja_def)




text \<open>
  C3. \<open>restore\<close> on a container whose stack of snapshots is empty fails with
  \<open>NO_MORE_SNAPSHOTS_AVAILABLE\<close> and leaves the container as it was, so its binding
  dictionary and its middleware are unchanged. The stack is empty exactly when as many
  calls of \<open>restore\<close> have succeeded as calls of \<open>snapshot\<close> were made: \<open>snapshot\<close> makes
  the stack one longer, a \<open>restore\<close> on a stack that is not empty succeeds and makes it
  one shorter, and no other call changes the stack.
\<close>

theorem restore_without_snapshot:
  "(snapshots (base c) = [] \<longrightarrow> restore c = (Inl (Error NO_MORE_SNAPSHOTS_AVAILABLE None), c))
   \<and> (snapshots (base c) \<noteq> [] \<longrightarrow>
        fst (restore c) = Inr ()
        \<and> Suc (length (snapshots (base (snd (restore c))))) = length (snapshots (base c)))
   \<and> length (snapshots (base (snapshot c))) = Suc (length (snapshots (base c)))
   \<and> snapshots (base (mutate eng mu c)) = snapshots (base c)"
proof -
  have empty: "restore c = (Inl (Error NO_MORE_SNAPSHOTS_AVAILABLE None), c)"
    if "snapshots (base c) = []"
    using that by (simp add: restore_def)
  have pop: "fst (restore c) = Inr ()
      \<and> Suc (length (snapshots (base (snd (restore c))))) = length (snapshots (base c))"
    if "snapshots (base c) \<noteq> []"
    using that by (simp add: restore_def Let_def)
  have push: "length (snapshots (base (snapshot c))) = Suc (length (snapshots (base c)))"
    by (simp add: snapshots_snapshot)
  show ?thesis
    using empty pop push snapshots_mutate [of eng mu c] by blast
qed

theorem restore_without_snapshot_witness:
  "restore empty_container = (Inl (Error NO_MORE_SNAPSHOTS_AVAILABLE None), empty_container)
   \<and> fst (restore (snapshot ninja_container)) = Inr ()
   \<and> snapshots (base (snd (restore (snapshot ninja_container)))) = []
   \<and> fst (restore (snd (restore (snapshot ninja_container))))
       = Inl (Error NO_MORE_SNAPSHOTS_AVAILABLE None)"
proof -
  have e: "snapshots (base empty_container) = []"
    by (simp add: empty_container_def)
  have n: "snapshots (base (snapshot ninja_container)) \<noteq> []"
    by (simp add: snapshots_snapshot)
  have l: "length (snapshots (base (snapshot ninja_container))) = Suc 0"
    using restore_without_snapshot [of ninja_container] by (simp add: ninja_container_def)
  have s: "snapshots (base (snd (restore (snapshot ninja_container)))) = []"
    using restore_without_snapshot [of "snapshot ninja_container"] n l by simp
  show ?thesis
    using restore_without_snapshot [of empty_container] e
      restore_without_snapshot [of "snapshot ninja_container"] n
      restore_without_snapshot [of "snd (restore (snapshot ninja_container))"] s
    by simp
qed

text \<open>
  C4. \<open>unbind\<close> of an identifier that has no binding in the container fails with
  \<open>CANNOT_UNBIND\<close>, the container is as it was, and the message of the error is the
  text of the constant, a space and the identifier as a string. \<open>unbind\<close> of an
  identifier that is registered returns without error and removes the key with all its
  bindings; every other key keeps its bindings.
\<close>

theorem unbind_absent_fails:
  "(\<not> Lookup_hasKey (bindingDictionary (base c)) sid \<longrightarrow>
      unbind sid c = (Inl (Error CANNOT_UNBIND (Some (getServiceIdentifierAsString sid))), c)
      \<and> (\<forall>t. message t (Error CANNOT_UNBIND (Some (getServiceIdentifierAsString sid)))
              = t CANNOT_UNBIND @ '' '' @ getServiceIdentifierAsString sid))
   \<and> (Lookup_hasKey (bindingDictionary (base c)) sid \<longrightarrow>
      unbind sid c = (Inr (), update_base (\<lambda>s. s\<lparr>bindingDictionary :=
          filter (\<lambda>e. fst e \<noteq> sid) (bindingDictionary s)\<rparr>) c)
      \<and> \<not> Lookup_hasKey (bindingDictionary (base (snd (unbind sid c)))) sid
      \<and> (\<forall>k. k \<noteq> sid \<longrightarrow> Lookup_get (bindingDictionary (base (snd (unbind sid c)))) k
                          = Lookup_get (bindingDictionary (base c)) k))"
  by (auto simp: unbind_absent unbind_present Lookup_get_def map_of_filter_key
      Lookup_hasKey_def)

theorem unbind_absent_fails_witness:
  "bind ninja empty_container = (ninja_binding, ninja_container)
   \<and> unbind ninja empty_container = (Inl (Error CANNOT_UNBIND (Some ''Ninja'')), empty_container)
   \<and> message (\<lambda>m. ''Could not unbind serviceIdentifier:'')
       (Error CANNOT_UNBIND (Some ''Ninja'')) = ''Could not unbind serviceIdentifier: Ninja''
   \<and> fst (unbind ninja ninja_container) = Inr ()
   \<and> bindingDictionary (base (snd (unbind ninja ninja_container))) = []
   \<and> fst (unbind (SymbolIdentifier ''Katana'') ninja_container)
       = Inl (Error CANNOT_UNBIND (Some ''Symbol(Katana)''))
   \<and> fst (unbind (ClassIdentifier 7 ''Katana'') ninja_container)
       = Inl (Error CANNOT_UNBIND (Some ''Katana''))"
proof -
  have e: "\<not> Lookup_hasKey (bindingDictionary (base empty_container)) ninja"
    by (simp add: empty_container_def Lookup_hasKey_def)
  have n: "Lookup_hasKey (bindingDictionary (base ninja_container)) ninja"
    by (simp add: ninja_container_def Lookup_hasKey_def)
  have k: "\<not> Lookup_hasKey (bindingDictionary (base ninja_container)) (SymbolIdentifier ''Katana'')"
    by (simp add: ninja_container_def Lookup_hasKey_def ninja_def)
  have k': "\<not> Lookup_hasKey (bindingDictionary (base ninja_container)) (ClassIdentifier 7 ''Katana'')"
    by (simp add: ninja_container_def Lookup_hasKey_def ninja_def)
  have b: "bind ninja empty_container = (ninja_binding, ninja_container)"
    by (simp add: bind_def empty_container_def ninja_container_def ninja_binding_def
        default_options_def update_base_def Let_def)
  show ?thesis
    using unbind_absent_fails [of empty_container ninja] e
      unbind_absent_fails [of ninja_container ninja] n
      unbind_absent_fails [of ninja_container "SymbolIdentifier ''Katana''"] k
      unbind_absent_fails [of ninja_container "ClassIdentifier 7 ''Katana''"] k' b
    by (simp add: ninja_def ninja_container_def)
qed

text \<open>
  C5. \<open>unload\<close> of a module removes from the dictionary exactly the bindings whose
  module id is the id of the module, under every key: the bindings that stay are the
  others, each under its key and in the order they had. A key stays when one of its
  bindings stays, no key is left without bindings, and nothing but the dictionary
  changes. Unloading several modules removes the bindings of each of them. A binding
  that the \<open>bind\<close> or the \<open>rebind\<close> helper of a module registers carries the id of the
  module, so unloading the module removes it.
\<close>

theorem unload_removes_module_bindings:
  "entries (bindingDictionary (base (unload [m] c))) =
     filter (\<lambda>(k, b). moduleId b \<noteq> Some (module_id m)) (entries (bindingDictionary (base c)))
   \<and> map fst (bindingDictionary (base (unload [m] c))) =
       map fst (filter (\<lambda>(k, bs). \<exists>b \<in> set bs. moduleId b \<noteq> Some (module_id m))
         (bindingDictionary (base c)))
   \<and> (\<forall>(k, bs) \<in> set (bindingDictionary (base (unload [m] c))). bs \<noteq> [])
   \<and> unload [m] c =
       update_base (\<lambda>s. s\<lparr>bindingDictionary := bindingDictionary (base (unload [m] c))\<rparr>) c
   \<and> entries (bindingDictionary (base (unload ms c))) =
       filter (\<lambda>(k, b). \<forall>m' \<in> set ms. moduleId b \<noteq> Some (module_id m'))
         (entries (bindingDictionary (base c)))
   \<and> moduleId (fst (bindFunction (module_id m) sid c)) = Some (module_id m)
   \<and> (sid, fst (bindFunction (module_id m) sid c))
       \<in> set (entries (bindingDictionary (base (snd (bindFunction (module_id m) sid c)))))
   \<and> (sid, fst (bindFunction (module_id m) sid c))
       \<notin> set (entries (bindingDictionary (base
             (unload [m] (snd (bindFunction (module_id m) sid c))))))
   \<and> (\<forall>b c'. rebindFunction (module_id m) sid c = (Inr b, c') \<longrightarrow>
        moduleId b = Some (module_id m)
        \<and> (sid, b) \<in> set (entries (bindingDictionary (base c')))
        \<and> (sid, b) \<notin> set (entries (bindingDictionary (base (unload [m] c')))))"
proof -
  have 1: "entries (bindingDictionary (base (unload [m] c))) =
     filter (\<lambda>(k, b). moduleId b \<noteq> Some (module_id m)) (entries (bindingDictionary (base c)))"
    for c
    by (simp add: unload_single entries_removeByCondition)
  have 2: "map fst (bindingDictionary (base (unload [m] c))) =
       map fst (filter (\<lambda>(k, bs). \<exists>b \<in> set bs. moduleId b \<noteq> Some (module_id m))
         (bindingDictionary (base c)))"
    by (simp add: unload_single keys_removeByCondition)
  have 3: "\<forall>(k, bs) \<in> set (bindingDictionary (base (unload [m] c))). bs \<noteq> []"
    using nonempty_removeByCondition by (fastforce simp: unload_single)
  have 4: "unload [m] c =
       update_base (\<lambda>s. s\<lparr>bindingDictionary := bindingDictionary (base (unload [m] c))\<rparr>) c"
    by (simp add: unload_single update_base_def)
  have 5: "(sid, fst (bindFunction (module_id m) sid c))
       \<notin> set (entries (bindingDictionary (base
             (unload [m] (snd (bindFunction (module_id m) sid c))))))"
    unfolding 1 using bindFunction_stamps [of "module_id m" sid c] by simp
  have 6: "moduleId b = Some (module_id m)
        \<and> (sid, b) \<in> set (entries (bindingDictionary (base c')))
        \<and> (sid, b) \<notin> set (entries (bindingDictionary (base (unload [m] c'))))"
    if "rebindFunction (module_id m) sid c = (Inr b, c')" for b c'
    unfolding 1 using rebindFunction_stamps [OF that] by simp
  show ?thesis
    using 1 [of c] 2 3 4 5 6 entries_unload [of ms c]
      bindFunction_stamps [of "module_id m" sid c]
    by blast
qed

theorem unload_removes_module_bindings_witness:
  "map (\<lambda>(k, b). (k, moduleId b, production b))
     (entries (bindingDictionary (base (snd (load [warriors, weapons] ninja_container)))))
     = [(ninja, None, Invalid), (ninja, Some 10, Instance ninja),
        (katana, Some 11, Instance katana), (shuriken, Some 11, Instance shuriken)]
   \<and> map (\<lambda>(k, b). (k, moduleId b, production b))
       (entries (bindingDictionary (base
          (unload [warriors] (snd (load [warriors, weapons] ninja_container))))))
     = [(ninja, None, Invalid),
        (katana, Some 11, Instance katana), (shuriken, Some 11, Instance shuriken)]
   \<and> map (\<lambda>(k, b). (k, moduleId b, production b))
       (entries (bindingDictionary (base
          (unload [weapons] (snd (load [warriors, weapons] ninja_container))))))
     = [(ninja, None, Invalid), (ninja, Some 10, Instance ninja)]
   \<and> map fst (bindingDictionary (base
          (unload [weapons] (snd (load [warriors, weapons] ninja_container)))))
     = [ninja]
   \<and> fst (rebindFunction 10 ninja ninja_container)
     = Inr ((new_Binding 2 ninja (JString ''Transient''))\<lparr>moduleId := Some 10\<rparr>)
   \<and> entries (bindingDictionary (base (snd (rebindFunction 10 ninja ninja_container))))
     = [(ninja, (new_Binding 2 ninja (JString ''Transient''))\<lparr>moduleId := Some 10\<rparr>)]
   \<and> (ninja, (new_Binding 2 ninja (JString ''Transient''))\<lparr>moduleId := Some 10\<rparr>)
       \<notin> set (entries (bindingDictionary (base
             (unload [warriors] (snd (rebindFunction 10 ninja ninja_container))))))"
proof -
  define c where "c = snd (load [warriors, weapons] ninja_container)"
  have d: "bindingDictionary (base c) =
      [(ninja, [ninja_binding,
                (new_Binding 2 ninja (JString ''Transient''))
                  \<lparr>moduleId := Some 10, production := Instance ninja\<rparr>]),
       (katana, [(new_Binding 3 katana (JString ''Transient''))
                  \<lparr>moduleId := Some 11, production := Instance katana\<rparr>]),
       (shuriken, [(new_Binding 4 shuriken (JString ''Transient''))
                  \<lparr>moduleId := Some 11, production := Instance shuriken\<rparr>])]"
    by (simp add: c_def warriors_def weapons_def ninja_container_def bindFunction_def bind_def
        setModuleId_def configure_def update_base_def default_options_def
        BindingScopeEnum_Transient_def new_Binding_def ninja_binding_def Let_def
        ninja_def katana_def shuriken_def)
  have i: "module_id warriors = 10" "module_id weapons = 11"
    by (simp_all add: warriors_def weapons_def)
  have w: "entries (bindingDictionary (base (unload [warriors] c))) =
      filter (\<lambda>(k, b). moduleId b \<noteq> Some 10) (entries (bindingDictionary (base c)))"
    using unload_removes_module_bindings [of warriors c] by (simp add: i)
  have x: "entries (bindingDictionary (base (unload [weapons] c))) =
      filter (\<lambda>(k, b). moduleId b \<noteq> Some 11) (entries (bindingDictionary (base c)))"
    "map fst (bindingDictionary (base (unload [weapons] c))) =
      map fst (filter (\<lambda>(k, bs). \<exists>b \<in> set bs. moduleId b \<noteq> Some 11)
        (bindingDictionary (base c)))"
    using unload_removes_module_bindings [of weapons c] by (simp_all add: i)
  define b where "b = (new_Binding 2 ninja (JString ''Transient''))\<lparr>moduleId := Some 10\<rparr>"
  define c' where "c' = Container \<lparr>container_id = 0, options = default_options,
      middleware = None, bindingDictionary = [(ninja, [b])], snapshots = [],
      metadataReader = MetadataReader, idCounter = 3\<rparr> None"
  have r: "rebindFunction 10 ninja ninja_container = (Inr b, c')"
    by (simp add: rebindFunction_eq bindFunction_eq unbind_def Lookup_remove_def
        Lookup_hasKey_def bind_def ninja_container_def default_options_def update_base_def
        BindingScopeEnum_Transient_def Let_def b_def c'_def)
  have u: "(ninja, b) \<notin> set (entries (bindingDictionary (base (unload [warriors] c'))))"
    using unload_removes_module_bindings [of warriors ninja_container _ ninja] r
    by (simp add: i)
  show ?thesis
    unfolding c_def [symmetric] w x r
    using u by (simp add: d new_Binding_def ninja_binding_def b_def c'_def)
qed

text \<open>
  C6. \<open>isBound\<close> holds of a container and an identifier exactly when the dictionary of
  the container has the key or \<open>isBound\<close> holds of an ancestor; with no parent it is the
  test of the local dictionary. \<open>isBoundTagged\<close> holds exactly when the local test
  holds, or it holds of an ancestor. The local test holds when some binding registered
  under the identifier in the local dictionary has a constraint that accepts the mock
  request made for this container, the identifier and the tag. When the local test
  holds the answer is true whatever the parent is, since the parent is asked only when
  the local test fails.
\<close>

theorem isBound_parent_chain:
  "(isBound c sid \<longleftrightarrow>
      Lookup_hasKey (bindingDictionary (base c)) sid
      \<or> (\<exists>a \<in> set (ancestors c). isBound a sid))
   \<and> (isBound c sid \<longleftrightarrow>
      Lookup_hasKey (bindingDictionary (base c)) sid
      \<or> (\<exists>p. parent c = Some p \<and> isBound p sid))
   \<and> (isBoundTagged c sid key val \<longleftrightarrow>
      ContainerBase_isBoundTagged (base c) sid key val
      \<or> (\<exists>a \<in> set (ancestors c). isBoundTagged a sid key val))
   \<and> (isBoundTagged c sid key val \<longleftrightarrow>
      ContainerBase_isBoundTagged (base c) sid key val
      \<or> (\<not> ContainerBase_isBoundTagged (base c) sid key val
          \<and> (\<exists>p. parent c = Some p \<and> isBoundTagged p sid key val)))
   \<and> (ContainerBase_isBoundTagged (base c) sid key val \<longleftrightarrow>
      (\<exists>bs. Lookup_get (bindingDictionary (base c)) sid = Inr bs
         \<and> (\<exists>b \<in> set bs.
               constraint b (createMockRequest (container_id (base c)) sid key val))))
   \<and> (Lookup_hasKey (bindingDictionary (base c)) sid \<longrightarrow>
        isBound (Container (base c) p') sid)
   \<and> (ContainerBase_isBoundTagged (base c) sid key val \<longrightarrow>
        isBoundTagged (Container (base c) p') sid key val)"
proof -
  have 1: "isBound c sid \<longleftrightarrow> Lookup_hasKey (bindingDictionary (base c)) sid
      \<or> (\<exists>p. parent c = Some p \<and> isBound p sid)" for c
    by (induction c sid rule: isBound.induct) (auto simp: ContainerBase_isBound_def Let_def)
  have 2: "isBoundTagged c sid key val \<longleftrightarrow> ContainerBase_isBoundTagged (base c) sid key val
      \<or> (\<exists>p. parent c = Some p \<and> isBoundTagged p sid key val)" for c
    by (induction c sid key val rule: isBoundTagged.induct) (auto simp: Let_def)
  have 3: "isBound (Container (base c) p') sid"
    if "Lookup_hasKey (bindingDictionary (base c)) sid"
    using that 1 [of "Container (base c) p'"] by simp
  have 4: "isBoundTagged (Container (base c) p') sid key val"
    if "ContainerBase_isBoundTagged (base c) sid key val"
    using that 2 [of "Container (base c) p'"] by simp
  show ?thesis
    using isBound_ancestors [of c sid] isBoundTagged_ancestors [of c sid key val]
      isBoundTagged_local [of "base c" sid key val] 1 [of c] 2 [of c] 3 4
    by blast
qed

theorem isBound_parent_chain_witness:
  "mutate example_engine (MBind ninja [WhenTargetNamed (JString ''master'')]) empty_container
     = parent_container
   \<and> (case createChild 2 JUndefined parent_container of
         Inl e \<Rightarrow> False
       | Inr c \<Rightarrow> snd (bind katana c) = child_container)
   \<and> isBound child_container katana
   \<and> isBound child_container ninja
   \<and> \<not> isBound child_container shuriken
   \<and> \<not> isBound parent_container katana
   \<and> isBoundTagged child_container ninja NAMED_TAG (JString ''master'')
   \<and> \<not> isBoundTagged child_container ninja NAMED_TAG (JString ''student'')
   \<and> isBoundTagged child_container katana NAMED_TAG (JString ''student'')"
proof -
  have a: "ancestors child_container = [parent_container]"
    "ancestors parent_container = []"
    by (simp_all add: child_container_def parent_container_def)
  have k: "Lookup_hasKey (bindingDictionary (base child_container)) katana"
    "\<not> Lookup_hasKey (bindingDictionary (base child_container)) ninja"
    "\<not> Lookup_hasKey (bindingDictionary (base child_container)) shuriken"
    "Lookup_hasKey (bindingDictionary (base parent_container)) ninja"
    "\<not> Lookup_hasKey (bindingDictionary (base parent_container)) katana"
    "\<not> Lookup_hasKey (bindingDictionary (base parent_container)) shuriken"
    by (simp_all add: child_container_def parent_container_def Lookup_hasKey_def
        ninja_def katana_def shuriken_def)
  have t: "ContainerBase_isBoundTagged (base parent_container) ninja NAMED_TAG (JString ''master'')"
    "\<not> ContainerBase_isBoundTagged (base parent_container) ninja NAMED_TAG (JString ''student'')"
    "\<not> ContainerBase_isBoundTagged (base child_container) ninja NAMED_TAG (JString ''master'')"
    "\<not> ContainerBase_isBoundTagged (base child_container) ninja NAMED_TAG (JString ''student'')"
    "ContainerBase_isBoundTagged (base child_container) katana NAMED_TAG (JString ''student'')"
    by (simp_all add: child_container_def parent_container_def ContainerBase_isBoundTagged_def
        Lookup_hasKey_def Lookup_get_def createMockRequest_def new_Binding_def NAMED_TAG_def
        ninja_def katana_def)
  have p: "mutate example_engine (MBind ninja [WhenTargetNamed (JString ''master'')])
      empty_container = parent_container"
    by (simp add: bind_def configure_def empty_container_def parent_container_def
        default_options_def new_Binding_def update_base_def Let_def)
  have c: "createChild 2 JUndefined parent_container =
      Inr (Container \<lparr>container_id = 2, options = default_options, middleware = None,
                bindingDictionary = [], snapshots = [], metadataReader = MetadataReader,
                idCounter = 3\<rparr> (Some parent_container))"
    by (simp add: createChild_def Container_constructor_def ContainerBase_constructor_def
        parent_container_def default_options_def BindingScopeEnum_Transient_def
        BindingScopeEnum_Singleton_def BindingScopeEnum_Request_def Let_def)
  have b: "snd (bind katana (Container \<lparr>container_id = 2, options = default_options,
      middleware = None, bindingDictionary = [], snapshots = [],
      metadataReader = MetadataReader, idCounter = 3\<rparr> (Some parent_container)))
      = child_container"
    by (simp add: bind_def child_container_def default_options_def update_base_def Let_def)
  show ?thesis
    using isBound_parent_chain [of child_container katana]
      isBound_parent_chain [of child_container ninja NAMED_TAG "JString ''master''"]
      isBound_parent_chain [of child_container ninja NAMED_TAG "JString ''student''"]
      isBound_parent_chain [of child_container shuriken]
      isBound_parent_chain [of child_container katana NAMED_TAG "JString ''student''"]
      isBound_parent_chain [of parent_container katana]
      isBound_parent_chain [of parent_container ninja NAMED_TAG "JString ''master''"]
      isBound_parent_chain [of parent_container ninja NAMED_TAG "JString ''student''"]
      isBound_parent_chain [of parent_container shuriken]
    unfolding a using k t p
    by (simp add: c b)
qed




text \<open>
  C8. In a container with a middleware installed, what a function of the \<open>get\<close> family
  returns is decided by what the middleware chain returns for the arguments of the call:
  \<^verbatim>\<open>undefined\<close> and \<^verbatim>\<open>null\<close> make the call fail with \<open>INVALID_MIDDLEWARE_RETURN\<close>, any
  other value is returned as it is, and an error of the chain is the error of the call.
\<close>

theorem middleware_return_checked:
  assumes "middleware (base c) = Some m"
  shows "returned (Inr JUndefined) = Inl (Error INVALID_MIDDLEWARE_RETURN None)
    \<and> returned (Inr JNull) = Inl (Error INVALID_MIDDLEWARE_RETURN None)
    \<and> (\<forall>v. v \<noteq> JUndefined \<and> v \<noteq> JNull \<longrightarrow> returned (Inr v) = Inr v)
    \<and> (\<forall>e. returned (Inl e) = Inl e)
    \<and> get eng sid c =
         returned (m (view c) (defaultArgs False False Variable sid JUndefined JUndefined))
    \<and> getAll eng sid c =
         returned (m (view c) (defaultArgs True True Variable sid JUndefined JUndefined))
    \<and> getTagged eng sid key val c =
         returned (m (view c) (defaultArgs False False Variable sid key val))
    \<and> getNamed eng sid named c =
         returned (m (view c) (defaultArgs False False Variable sid NAMED_TAG named))
    \<and> getAllTagged eng sid key val c =
         returned (m (view c) (defaultArgs False True Variable sid key val))
    \<and> getAllNamed eng sid named c =
         returned (m (view c) (defaultArgs False True Variable sid NAMED_TAG named))"
  using assms
  by (simp add: returned_def get_def getAll_def getTagged_def getNamed_def getAllTagged_def
      getAllNamed_def private_get_def)

theorem middleware_return_checked_witness:
  "get example_engine ninja (applyMiddleware example_engine [null_middleware] empty_container)
     = Inl (Error INVALID_MIDDLEWARE_RETURN None)
   \<and> getAllNamed example_engine ninja (JString ''master'')
       (applyMiddleware example_engine [null_middleware] empty_container)
     = Inl (Error INVALID_MIDDLEWARE_RETURN None)
   \<and> getTagged example_engine ninja (JString ''rank'') (JNumber 1)
       (applyMiddleware example_engine [wrap_middleware ''log''] empty_container)
     = Inr (JArray [JString ''log'', JString ''resolved''])"
proof -
  have n: "middleware (base (applyMiddleware example_engine [null_middleware] empty_container))
      = Some (null_middleware (planAndResolve example_engine))"
    by (simp add: applyMiddleware_def empty_container_def)
  have w: "middleware (base (applyMiddleware example_engine [wrap_middleware ''log'']
        empty_container))
      = Some (wrap_middleware ''log'' (planAndResolve example_engine))"
    by (simp add: applyMiddleware_def empty_container_def)
  show ?thesis
    using middleware_return_checked [OF n, of example_engine ninja _ _ "JString ''master''"]
      middleware_return_checked [OF w, of example_engine ninja "JString ''rank''" "JNumber 1"]
    by (simp add: null_middleware_def wrap_middleware_def planAndResolve_def example_engine_def
        defaultArgs_def)
qed

text \<open>
  C9. \<open>applyMiddleware\<close> installs the chain of the given middlewares. The innermost
  entry point is the installed chain when there is one and \<open>planAndResolve\<close> otherwise;
  each middleware is applied to the entry point composed from the ones before it, so
  the last middleware given is the outermost. Applying middlewares in two calls is
  applying them in one. After the call every function of the \<open>get\<close> family calls the
  chain: its result is what \<open>_get\<close> makes of the result of the chain.
\<close>

theorem applyMiddleware_chain:
  "middleware (base (applyMiddleware eng [] c)) =
      Some (case middleware (base c) of Some m \<Rightarrow> m | None \<Rightarrow> planAndResolve eng)
   \<and> (\<forall>prev. middleware (base (applyMiddleware eng ms c)) = Some prev \<longrightarrow>
        middleware (base (applyMiddleware eng (ms @ [m]) c)) = Some (m prev))
   \<and> applyMiddleware eng ms2 (applyMiddleware eng ms1 c) = applyMiddleware eng (ms1 @ ms2) c
   \<and> (\<exists>chain. middleware (base (applyMiddleware eng ms c)) = Some chain
        \<and> view (applyMiddleware eng ms c) = view c
        \<and> get eng sid (applyMiddleware eng ms c) =
            returned (chain (view c) (defaultArgs False False Variable sid JUndefined JUndefined))
        \<and> getAll eng sid (applyMiddleware eng ms c) =
            returned (chain (view c) (defaultArgs True True Variable sid JUndefined JUndefined))
        \<and> getTagged eng sid key val (applyMiddleware eng ms c) =
            returned (chain (view c) (defaultArgs False False Variable sid key val))
        \<and> getNamed eng sid named (applyMiddleware eng ms c) =
            returned (chain (view c) (defaultArgs False False Variable sid NAMED_TAG named))
        \<and> getAllTagged eng sid key val (applyMiddleware eng ms c) =
            returned (chain (view c) (defaultArgs False True Variable sid key val))
        \<and> getAllNamed eng sid named (applyMiddleware eng ms c) =
            returned (chain (view c) (defaultArgs False True Variable sid NAMED_TAG named)))"
proof -
  define initial where
    "initial = (case middleware (base c) of Some m \<Rightarrow> m | None \<Rightarrow> planAndResolve eng)"
  have installed: "middleware (base (applyMiddleware eng ms' c)) =
      Some (foldl (\<lambda>prev curr. curr prev) initial ms')" for ms'
    by (simp add: applyMiddleware_def initial_def)
  have seen: "view (applyMiddleware eng ms c) = view c"
    by (simp add: applyMiddleware_def Let_def)
  have through: "private_get eng avoid multi tt sid key' val' (applyMiddleware eng ms c) =
      returned (foldl (\<lambda>prev curr. curr prev) initial ms (view c)
        (defaultArgs avoid multi tt sid key' val'))" for avoid multi tt key' val'
    by (simp add: private_get_def installed seen returned_def)
  have twice: "applyMiddleware eng ms2 (applyMiddleware eng ms1 c) =
      applyMiddleware eng (ms1 @ ms2) c"
    by (simp add: applyMiddleware_def Let_def split: option.splits)
  show ?thesis
    using installed [of "[]"] installed [of ms] installed [of "ms @ [m]"] seen twice
    by (simp add: initial_def get_def getAll_def getTagged_def getNamed_def getAllTagged_def
        getAllNamed_def through)
qed

theorem applyMiddleware_chain_witness:
  "middleware (base (applyMiddleware example_engine [] empty_container))
     = Some (planAndResolve example_engine)
   \<and> middleware (base (applyMiddleware example_engine
        [wrap_middleware ''first'', wrap_middleware ''second''] empty_container))
     = Some (wrap_middleware ''second'' (wrap_middleware ''first''
          (planAndResolve example_engine)))
   \<and> applyMiddleware example_engine [wrap_middleware ''second'']
        (applyMiddleware example_engine [wrap_middleware ''first''] empty_container)
     = applyMiddleware example_engine [wrap_middleware ''first'', wrap_middleware ''second'']
        empty_container"
proof -
  have 0: "middleware (base empty_container) = None"
    by (simp add: empty_container_def)
  have 1: "middleware (base (applyMiddleware example_engine [wrap_middleware ''first'']
        empty_container)) = Some (wrap_middleware ''first'' (planAndResolve example_engine))"
    using applyMiddleware_chain [of example_engine empty_container "[]"
        "wrap_middleware ''first''"] 0
    by simp
  show ?thesis
    using applyMiddleware_chain [of example_engine empty_container
        "[wrap_middleware ''first'']" "wrap_middleware ''second''"
        "[wrap_middleware ''second'']" "[wrap_middleware ''first'']"] 0 1
    by simp
qed

text \<open>
  C10. The named functions are the tagged functions at the tag \<open>NAMED_TAG\<close>:
  \<open>getNamed\<close> is \<open>getTagged\<close>, \<open>getAllNamed\<close> is \<open>getAllTagged\<close> and \<open>isBoundNamed\<close> is
  \<open>isBoundTagged\<close>, each with \<open>NAMED_TAG\<close> as the key and the name as the value.
\<close>

theorem named_is_tagged:
  "getNamed eng s n c = getTagged eng s NAMED_TAG n c
   \<and> getAllNamed eng s n c = getAllTagged eng s NAMED_TAG n c
   \<and> isBoundNamed c s n = isBoundTagged c s NAMED_TAG n"
  by (simp add: getNamed_def getAllNamed_def isBoundNamed_def)

theorem named_is_tagged_witness:
  "isBoundNamed child_container ninja (JString ''master'')
   \<and> isBoundTagged child_container ninja (JString ''named'') (JString ''master'')
   \<and> \<not> isBoundNamed child_container ninja (JString ''student'')"
proof -
  have "isBoundTagged child_container ninja NAMED_TAG (JString ''master'')"
    by (simp add: child_container_def parent_container_def ContainerBase_isBoundTagged_def
        Lookup_hasKey_def Lookup_get_def createMockRequest_def new_Binding_def NAMED_TAG_def
        ninja_def katana_def)
  moreover have "\<not> isBoundTagged child_container ninja NAMED_TAG (JString ''student'')"
    by (simp add: child_container_def parent_container_def ContainerBase_isBoundTagged_def
        Lookup_hasKey_def Lookup_get_def createMockRequest_def new_Binding_def NAMED_TAG_def
        ninja_def katana_def)
  ultimately show ?thesis
    using named_is_tagged [of example_engine ninja "JString ''master''" child_container]
      named_is_tagged [of example_engine ninja "JString ''student''" child_container]
    by (simp add: NAMED_TAG_def)
qed

end
